theory Spec2Isabelle
  imports Main "HOL-Library.Sublist"
begin

section \<open>markdownreveal: a shallow embedding of \<^verbatim>\<open>markdownreveal/__init__.py\<close>\<close>

text \<open>
  The module turns \<^verbatim>\<open>presentation.md\<close> into a reveal.js deck: it provisions reveal.js
  under a local directory (\<^verbatim>\<open>initialize_localdir\<close>), mirrors the presentation directory
  into the output directory, runs the converter, patches the HTML (\<^verbatim>\<open>tweak_html\<close>),
  writes \<^verbatim>\<open>index.html\<close> and appends to \<^verbatim>\<open>.reload\<close> (\<^verbatim>\<open>generate\<close>); a watchdog handler
  with a \<^verbatim>\<open>threading.Timer\<close> debounces the rebuilds (\<^verbatim>\<open>Handler\<close>).

  Python strings are modelled as \<^typ>\<open>string\<close>, one \<^typ>\<open>char\<close> per code point below 256.
  Exceptions are values of the type \<open>error\<close>; a function that can raise returns
  \<open>error + 'a\<close>, with \<open>Inl\<close> for the exception.
\<close>

subsection \<open>Exceptions\<close>

datatype error =
    KeyError | IndexError | TypeError
  | FileExistsError | FileNotFoundError | IsADirectoryError | NotADirectoryError
  | OSError | URLError | ReadError | CalledProcessError | ConverterError

subsection \<open>Strings: \<^verbatim>\<open>str.split\<close>, \<^verbatim>\<open>str.join\<close>\<close>

text \<open>
  \<^verbatim>\<open>s.split(sep)\<close> for a one-character separator: the pieces between the separators, empty
  pieces included; never the empty list. (The branch for \<open>[]\<close> in the \<open>case\<close> is never
  taken; it keeps the scrutinee evaluated once.)
\<close>

fun str_split :: "char \<Rightarrow> string \<Rightarrow> string list" where
  "str_split s [] = [[]]"
| "str_split s (c # cs) =
     (if c = s then [] # str_split s cs
      else (case str_split s cs of [] \<Rightarrow> [[c]] | w # ws \<Rightarrow> (c # w) # ws))"

text \<open>\<^verbatim>\<open>sep.join(xs)\<close>.\<close>

fun str_join :: "string \<Rightarrow> string list \<Rightarrow> string" where
  "str_join s [] = []"
| "str_join s [x] = x"
| "str_join s (x # y # ys) = x @ s @ str_join s (y # ys)"

subsection \<open>\<^verbatim>\<open>pathlib.Path\<close> on POSIX\<close>

text \<open>
  A \<^verbatim>\<open>PurePosixPath\<close> holds a root (\<^verbatim>\<open>''\<close>, \<^verbatim>\<open>'/'\<close> or \<^verbatim>\<open>'//'\<close>) and its parts; the root, when
  there is one, is the first part. There is no drive on POSIX.

  \<^verbatim>\<open>splitroot\<close>: exactly two leading slashes give the root \<^verbatim>\<open>'//'\<close>, any other number of
  leading slashes the root \<^verbatim>\<open>'/'\<close>.
\<close>

definition splitroot :: "string \<Rightarrow> string \<times> string" where
  "splitroot part =
     (if part \<noteq> [] \<and> hd part = CHR ''/'' then
        (let stripped_part = dropWhile (\<lambda>c. c = CHR ''/'') part in
           if length part - length stripped_part = 2 then (''//'', stripped_part)
           else (''/'', stripped_part))
      else ([], part))"

record path =
  root :: string
  parts :: "string list"

text \<open>
  \<^verbatim>\<open>parse_parts\<close> walks the arguments from the last to the first (the first argument of
  the function below is the reversed argument list), skips empty arguments, drops empty
  and \<^verbatim>\<open>'.'\<close> components, and stops at the first argument that has a root.
\<close>

fun parse_parts :: "string list \<Rightarrow> string list \<Rightarrow> path" where
  "parse_parts [] parsed = \<lparr>root = [], parts = parsed\<rparr>"
| "parse_parts (part # it) parsed =
     (if part = [] then parse_parts it parsed
      else
        (let (rt, rel) = splitroot part;
             parsed' = filter (\<lambda>x. x \<noteq> [] \<and> x \<noteq> ''.'') (str_split CHR ''/'' rel) @ parsed
         in if rt \<noteq> [] then \<lparr>root = rt, parts = rt # parsed'\<rparr>
            else parse_parts it parsed'))"

text \<open>\<^verbatim>\<open>Path(*args)\<close>, \<^verbatim>\<open>path.is_absolute()\<close>, \<^verbatim>\<open>str(path)\<close> and \<^verbatim>\<open>path / key\<close>.\<close>

definition Path :: "string list \<Rightarrow> path" where
  "Path args = parse_parts (rev args) []"

definition is_absolute :: "path \<Rightarrow> bool" where
  "is_absolute p = (root p \<noteq> [])"

definition path_str :: "path \<Rightarrow> string" where
  "path_str p =
     (let s = (if root p \<noteq> [] then root p @ str_join ''/'' (tl (parts p))
               else str_join ''/'' (parts p))
      in if s = [] then ''.'' else s)"

definition joinpath :: "path \<Rightarrow> string \<Rightarrow> path" where
  "joinpath p key =
     (let q = Path [key] in
        if root q \<noteq> [] then q else \<lparr>root = root p, parts = parts p @ parts q\<rparr>)"

text \<open>
  A relative path component as \<^verbatim>\<open>parse_parts\<close> leaves it: not empty, not \<^verbatim>\<open>'.'\<close>, without
  a slash.
\<close>

definition comp_ok :: "string \<Rightarrow> bool" where
  "comp_ok x = (x \<noteq> [] \<and> x \<noteq> ''.'' \<and> CHR ''/'' \<notin> set x)"

subsection \<open>\<^verbatim>\<open>clean_revealjs_tar_members\<close>\<close>

text \<open>
  A \<^verbatim>\<open>TarInfo\<close> is a record with its \<^verbatim>\<open>name\<close>; the other fields are the record's extension.
  The members are the distinct objects \<^verbatim>\<open>tar.getmembers()\<close> returns, so the in-place
  assignment \<^verbatim>\<open>member.name = ...\<close> is a record update of that member alone.
  \<^verbatim>\<open>
  clean = []
  for member in members:
      path = Path(member.name)
      if path.is_absolute(): continue
      parts = path.parts[1:]
      if not parts: continue
      if parts[0] == 'test': continue
      member.name = str(Path(*parts))
      clean.append(member)
  return clean
  \<close>
\<close>

record tar_member =
  name :: string

fun clean_revealjs_tar_members :: "'a tar_member_scheme list \<Rightarrow> 'a tar_member_scheme list" where
  "clean_revealjs_tar_members [] = []"
| "clean_revealjs_tar_members (member # members) =
     (let p = Path [name member] in
        if is_absolute p then clean_revealjs_tar_members members
        else
          (let parts' = drop 1 (parts p) in
             if parts' = [] then clean_revealjs_tar_members members
             else if hd parts' = ''test'' then clean_revealjs_tar_members members
             else member\<lparr>name := path_str (Path parts')\<rparr> # clean_revealjs_tar_members members))"

subsection \<open>Regular expressions: \<^verbatim>\<open>re.search\<close>\<close>

text \<open>
  The four patterns of the module (\<^verbatim>\<open>stylesheet.*id="theme"\<close>, \<^verbatim>\<open>div class="slides"\<close>,
  \<^verbatim>\<open><div class="reveal">\<close>, \<^verbatim>\<open><section>\<close>) use literal characters, the dot and the star
  only, and that is the fragment modelled: a pattern is a list of pieces, a piece an atom
  or a starred atom. The dot matches every character but the newline.
\<close>

datatype atom = Lit char | Dot

datatype piece = One atom | Star atom

definition atom_of :: "char \<Rightarrow> atom" where
  "atom_of c = (if c = CHR ''.'' then Dot else Lit c)"

fun re_compile :: "string \<Rightarrow> piece list" where
  "re_compile [] = []"
| "re_compile [c] = [One (atom_of c)]"
| "re_compile (c # d # cs) =
     (if d = CHR ''*'' then Star (atom_of c) # re_compile cs
      else One (atom_of c) # re_compile (d # cs))"

fun atom_matches :: "atom \<Rightarrow> char \<Rightarrow> bool" where
  "atom_matches (Lit a) c = (a = c)"
| "atom_matches Dot c = (c \<noteq> CHR 0x0A)"

text \<open>\<open>match_here ps s\<close>: the pattern matches a prefix of \<open>s\<close>.\<close>

fun match_here :: "piece list \<Rightarrow> string \<Rightarrow> bool" where
  "match_here [] s = True"
| "match_here (One a # ps) [] = False"
| "match_here (One a # ps) (c # cs) = (atom_matches a c \<and> match_here ps cs)"
| "match_here (Star a # ps) [] = match_here ps []"
| "match_here (Star a # ps) (c # cs) =
     (match_here ps (c # cs) \<or> (atom_matches a c \<and> match_here (Star a # ps) cs))"

text \<open>\<open>match_from ps s\<close>: the pattern matches somewhere in \<open>s\<close>.\<close>

fun match_from :: "piece list \<Rightarrow> string \<Rightarrow> bool" where
  "match_from ps [] = match_here ps []"
| "match_from ps (c # cs) = (match_here ps (c # cs) \<or> match_from ps cs)"

definition re_search :: "string \<Rightarrow> string \<Rightarrow> bool" where
  "re_search regex item = match_from (re_compile regex) item"

subsection \<open>\<^verbatim>\<open>find_indexes\<close>\<close>

text \<open>
  \<^verbatim>\<open>return [i for i, item in enumerate(haystack) if re.search(regex, item)]\<close>
\<close>

definition find_indexes :: "string list \<Rightarrow> string \<Rightarrow> nat list" where
  "find_indexes haystack regex =
     map fst (filter (\<lambda>(i, item). re_search regex item) (enumerate 0 haystack))"

subsection \<open>Lines, list insertion, replacement\<close>

text \<open>
  \<^verbatim>\<open>str.splitlines()\<close>: a line ends at \<^verbatim>\<open>\n\<close>, \<^verbatim>\<open>\r\<close>, \<^verbatim>\<open>\r\n\<close>, \<^verbatim>\<open>\v\<close>, \<^verbatim>\<open>\f\<close>, \<^verbatim>\<open>\x1c\<close>, \<^verbatim>\<open>\x1d\<close>,
  \<^verbatim>\<open>\x1e\<close> or \<^verbatim>\<open>\x85\<close> (and at U+2028 and U+2029, which are beyond the characters modelled);
  the terminators are dropped, and there is no empty last line after a final terminator.
\<close>

definition linebreak :: "char \<Rightarrow> bool" where
  "linebreak c = (c \<in> set [CHR 0x0A, CHR 0x0B, CHR 0x0C, CHR 0x0D, CHR 0x1C, CHR 0x1D, CHR 0x1E, CHR 0x85])"

fun splitlines :: "string \<Rightarrow> string list" where
  "splitlines [] = []"
| "splitlines (c # cs) =
     (if linebreak c then
        [] # (case cs of
                [] \<Rightarrow> []
              | d # ds \<Rightarrow> if c = CHR 0x0D \<and> d = CHR 0x0A then splitlines ds else splitlines (d # ds))
      else (case splitlines cs of [] \<Rightarrow> [[c]] | l # ls \<Rightarrow> (c # l) # ls))"

text \<open>
  \<^verbatim>\<open>xs.insert(i, x)\<close> for \<open>i \<ge> 0\<close>: before position \<open>i\<close>, at the end when \<open>i\<close> is beyond it.
\<close>

definition list_insert :: "'a list \<Rightarrow> nat \<Rightarrow> 'a \<Rightarrow> 'a list" where
  "list_insert xs i x = take i xs @ x # drop i xs"

text \<open>
  \<^verbatim>\<open>s.replace(old, new)\<close>: every occurrence, left to right, without overlap; for an empty
  \<^verbatim>\<open>old\<close>, \<^verbatim>\<open>new\<close> goes before every character and at the end.
\<close>

function str_replace_from :: "string \<Rightarrow> string \<Rightarrow> string \<Rightarrow> string" where
  "str_replace_from old new s =
     (if s = [] then []
      else if old \<noteq> [] \<and> take (length old) s = old
        then new @ str_replace_from old new (drop (length old) s)
      else hd s # str_replace_from old new (tl s))"
  by pat_completeness auto
termination
  by (relation "measure (\<lambda>(old, new, s). length s)") auto

definition str_replace :: "string \<Rightarrow> string \<Rightarrow> string \<Rightarrow> string" where
  "str_replace s old new =
     (if old = [] then new @ concat (map (\<lambda>c. c # new) s) else str_replace_from old new s)"

subsection \<open>Configuration values\<close>

text \<open>
  \<^verbatim>\<open>Config = Dict[Any, Any]\<close>. The values modelled are \<^verbatim>\<open>None\<close>, strings and paths (what
  \<^verbatim>\<open>load_config\<close> stores under \<^verbatim>\<open>local_path\<close> and \<^verbatim>\<open>output_path\<close>); \<^verbatim>\<open>config[key]\<close> raises
  \<^verbatim>\<open>KeyError\<close> on a missing key.
\<close>

datatype pyval = PNone | PStr string | PPath path

type_synonym Config = "string \<rightharpoonup> pyval"

definition getitem :: "Config \<Rightarrow> string \<Rightarrow> error + pyval" where
  "getitem config key = (case config key of None \<Rightarrow> Inl KeyError | Some v \<Rightarrow> Inr v)"

text \<open>Truth value (\<^verbatim>\<open>if v:\<close>), \<^verbatim>\<open>'%s' % v\<close>, and \<^verbatim>\<open>Path(v)\<close>, which raises on \<^verbatim>\<open>None\<close>.\<close>

fun truthy :: "pyval \<Rightarrow> bool" where
  "truthy PNone = False"
| "truthy (PStr s) = (s \<noteq> [])"
| "truthy (PPath p) = True"

fun fmt :: "pyval \<Rightarrow> string" where
  "fmt PNone = ''None''"
| "fmt (PStr s) = s"
| "fmt (PPath p) = path_str p"

fun to_Path :: "pyval \<Rightarrow> error + path" where
  "to_Path PNone = Inl TypeError"
| "to_Path (PStr s) = Inr (Path [s])"
| "to_Path (PPath p) = Inr p"

subsection \<open>\<^verbatim>\<open>tweak_html\<close>\<close>

text \<open>
  The function is six guarded steps over the list of lines, here one definition each.
  \<^verbatim>\<open>Path(v).exists()\<close> asks the file system: the first argument \<open>exists\<close> of the path-guarded
  steps tells which paths exist, as the process sees them (relative ones from its
  working directory).
  \<^verbatim>\<open>
  html = html.splitlines()
  if config['custom_css']:
      index = find_indexes(html, 'stylesheet.*id="theme"')[0]
      text = '<link rel="stylesheet" href="%s">' % config['custom_css']
      html.insert(index + 1, text)
  \<close>
\<close>

definition tweak_custom_css :: "Config \<Rightarrow> string list \<Rightarrow> error + string list" where
  \<open>tweak_custom_css config html =
     (case getitem config ''custom_css'' of
        Inl e \<Rightarrow> Inl e
      | Inr v \<Rightarrow>
          if truthy v then
            (case find_indexes html ''stylesheet.*id="theme"'' of
               [] \<Rightarrow> Inl IndexError
             | index # _ \<Rightarrow>
                 Inr (list_insert html (index + 1) (''<link rel="stylesheet" href="'' @ fmt v @ ''">'')))
          else Inr html)\<close>

text \<open>
  \<^verbatim>\<open>
  if Path(config['warmup']).exists():
      text = '<section><img src="%s" /></section>' % config['warmup']
      index = find_indexes(html, 'div class="slides"')[0]
      html.insert(index + 1, text)
  \<close>
\<close>

definition tweak_warmup :: "(path \<Rightarrow> bool) \<Rightarrow> Config \<Rightarrow> string list \<Rightarrow> error + string list" where
  \<open>tweak_warmup exists config html =
     (case getitem config ''warmup'' of
        Inl e \<Rightarrow> Inl e
      | Inr v \<Rightarrow>
          (case to_Path v of
             Inl e \<Rightarrow> Inl e
           | Inr p \<Rightarrow>
               if exists p then
                 (case find_indexes html ''div class="slides"'' of
                    [] \<Rightarrow> Inl IndexError
                  | index # _ \<Rightarrow>
                      Inr (list_insert html (index + 1) (''<section><img src="'' @ fmt v @ ''" /></section>'')))
               else Inr html))\<close>

text \<open>
  The three fan-out steps share their loop: the indexes are computed once, before the
  first insertion, and each insertion goes to position \<open>index + 1\<close> of the list as it is
  by then.
  \<^verbatim>\<open>
  for index in find_indexes(html, '<div class=\"reveal\">'):
      html.insert(index + 1, text)
  \<close>
\<close>

definition insert_after_reveal :: "string \<Rightarrow> string list \<Rightarrow> string list" where
  \<open>insert_after_reveal text html =
     fold (\<lambda>index h. list_insert h (index + 1) text) (find_indexes html ''<div class="reveal">'') html\<close>

text \<open>
  \<^verbatim>\<open>
  if config['footer']:
      text = '<div class="footer">%s</div>' % config['footer']
      for index in ...
  if config['header']:
      text = '<div class="header">%s</div>' % config['header']
      for index in ...
  if Path(config['logo']).exists():
      text = '<div class="logo"><img src="%s" /></div>' % config['logo']
      for index in ...
  \<close>
\<close>

definition tweak_footer :: "Config \<Rightarrow> string list \<Rightarrow> error + string list" where
  \<open>tweak_footer config html =
     (case getitem config ''footer'' of
        Inl e \<Rightarrow> Inl e
      | Inr v \<Rightarrow>
          if truthy v then Inr (insert_after_reveal (''<div class="footer">'' @ fmt v @ ''</div>'') html)
          else Inr html)\<close>

definition tweak_header :: "Config \<Rightarrow> string list \<Rightarrow> error + string list" where
  \<open>tweak_header config html =
     (case getitem config ''header'' of
        Inl e \<Rightarrow> Inl e
      | Inr v \<Rightarrow>
          if truthy v then Inr (insert_after_reveal (''<div class="header">'' @ fmt v @ ''</div>'') html)
          else Inr html)\<close>

definition tweak_logo :: "(path \<Rightarrow> bool) \<Rightarrow> Config \<Rightarrow> string list \<Rightarrow> error + string list" where
  \<open>tweak_logo exists config html =
     (case getitem config ''logo'' of
        Inl e \<Rightarrow> Inl e
      | Inr v \<Rightarrow>
          (case to_Path v of
             Inl e \<Rightarrow> Inl e
           | Inr p \<Rightarrow>
               if exists p
               then Inr (insert_after_reveal (''<div class="logo"><img src="'' @ fmt v @ ''" /></div>'') html)
               else Inr html))\<close>

text \<open>
  \<^verbatim>\<open>
  if Path(config['background']).exists():
      text = '<section data-background="%s">' % config['background']
      for index in find_indexes(html, '<section>'):
          html[index] = html[index].replace('<section>', text)
  return '\n'.join(html)
  \<close>
  The indexes come from \<^verbatim>\<open>enumerate\<close>, so \<^verbatim>\<open>html[index]\<close> is always in range.
\<close>

definition tweak_background :: "(path \<Rightarrow> bool) \<Rightarrow> Config \<Rightarrow> string list \<Rightarrow> error + string list" where
  \<open>tweak_background exists config html =
     (case getitem config ''background'' of
        Inl e \<Rightarrow> Inl e
      | Inr v \<Rightarrow>
          (case to_Path v of
             Inl e \<Rightarrow> Inl e
           | Inr p \<Rightarrow>
               if exists p then
                 Inr (fold (\<lambda>index h. h[index := str_replace (h ! index) ''<section>''
                                                    (''<section data-background="'' @ fmt v @ ''">'')])
                        (find_indexes html ''<section>'') html)
               else Inr html))\<close>

text \<open>The steps after the stylesheet step, up to the final \<^verbatim>\<open>'\n'.join(html)\<close>.\<close>

definition tweak_decorations :: "(path \<Rightarrow> bool) \<Rightarrow> Config \<Rightarrow> string list \<Rightarrow> error + string" where
  "tweak_decorations exists config html1 =
     (case tweak_warmup exists config html1 of Inl e \<Rightarrow> Inl e | Inr html2 \<Rightarrow>
      case tweak_footer config html2 of Inl e \<Rightarrow> Inl e | Inr html3 \<Rightarrow>
      case tweak_header config html3 of Inl e \<Rightarrow> Inl e | Inr html4 \<Rightarrow>
      case tweak_logo exists config html4 of Inl e \<Rightarrow> Inl e | Inr html5 \<Rightarrow>
      case tweak_background exists config html5 of Inl e \<Rightarrow> Inl e | Inr html6 \<Rightarrow>
      Inr (str_join [CHR 0x0A] html6))"

definition tweak_html :: "(path \<Rightarrow> bool) \<Rightarrow> string \<Rightarrow> Config \<Rightarrow> error + string" where
  "tweak_html exists html config =
     (case tweak_custom_css config (splitlines html) of
        Inl e \<Rightarrow> Inl e
      | Inr html1 \<Rightarrow> tweak_decorations exists config html1)"

text \<open>
  When a decoration is off: a string-guarded one (\<^verbatim>\<open>custom_css\<close>, \<^verbatim>\<open>footer\<close>, \<^verbatim>\<open>header\<close>) when
  its value is falsy, a path-guarded one (\<^verbatim>\<open>warmup\<close>, \<^verbatim>\<open>logo\<close>, \<^verbatim>\<open>background\<close>) when its
  value names no existing path.
\<close>

definition string_disabled :: "Config \<Rightarrow> string \<Rightarrow> bool" where
  "string_disabled config key = (case config key of None \<Rightarrow> False | Some v \<Rightarrow> \<not> truthy v)"

definition path_disabled :: "(path \<Rightarrow> bool) \<Rightarrow> Config \<Rightarrow> string \<Rightarrow> bool" where
  "path_disabled exists config key =
     (case config key of
        None \<Rightarrow> False
      | Some v \<Rightarrow> (case to_Path v of Inl e \<Rightarrow> False | Inr p \<Rightarrow> \<not> exists p))"

definition decorations_disabled :: "(path \<Rightarrow> bool) \<Rightarrow> Config \<Rightarrow> bool" where
  "decorations_disabled exists config =
     (path_disabled exists config ''warmup'' \<and> string_disabled config ''footer'' \<and>
      string_disabled config ''header'' \<and> path_disabled exists config ''logo'' \<and>
      path_disabled exists config ''background'')"

text \<open>A configuration with the six decoration fields set.\<close>

definition decoration_config :: "pyval \<Rightarrow> pyval \<Rightarrow> pyval \<Rightarrow> pyval \<Rightarrow> pyval \<Rightarrow> pyval \<Rightarrow> Config" where
  "decoration_config custom_css warmup footer header logo background =
     map_of [(''custom_css'', custom_css), (''warmup'', warmup), (''footer'', footer),
             (''header'', header), (''logo'', logo), (''background'', background)]"

text \<open>Two file systems for examples: only the working directory exists; nothing does.\<close>

definition only_cwd :: "path \<Rightarrow> bool" where
  "only_cwd p = (p = Path [''.''])"

definition nothing_exists :: "path \<Rightarrow> bool" where
  "nothing_exists p = False"

subsection \<open>The debouncing \<^verbatim>\<open>Handler\<close>\<close>








subsection \<open>The file system\<close>

text \<open>
  A file system maps a path, by its parts, to a file with its content, a directory or a
  symbolic link with its target. Paths are taken as \<^verbatim>\<open>pathlib\<close> holds them: how the
  operating system resolves \<^verbatim>\<open>..\<close> and links in the middle of a path is not modelled.
\<close>

datatype node = File string | Dir | Symlink "string list"

type_synonym filesystem = "string list \<rightharpoonup> node"

text \<open>
  Following the link at the end of a path, as \<^verbatim>\<open>stat\<close> does, at most 40 times (Linux's
  limit; beyond it \<^verbatim>\<open>stat\<close> fails and \<^verbatim>\<open>Path.exists()\<close> is false).
\<close>

fun resolve :: "nat \<Rightarrow> filesystem \<Rightarrow> string list \<Rightarrow> node option" where
  "resolve 0 fs p = None"
| "resolve (Suc n) fs p =
     (case fs p of Some (Symlink t) \<Rightarrow> resolve n fs t | r \<Rightarrow> r)"

definition stat :: "filesystem \<Rightarrow> string list \<Rightarrow> node option" where
  "stat fs p = resolve 40 fs p"

text \<open>The parent of a path; the root and the empty relative path are their own parents.\<close>

definition parent :: "string list \<Rightarrow> string list" where
  "parent p = (if p = [] \<or> (length p = 1 \<and> take 1 (hd p) = ''/'') then p else butlast p)"

text \<open>\<^verbatim>\<open>os.mkdir\<close>, \<^verbatim>\<open>os.remove\<close> (and \<^verbatim>\<open>Path.unlink\<close>), \<^verbatim>\<open>os.symlink\<close>.\<close>

definition os_mkdir :: "filesystem \<Rightarrow> string list \<Rightarrow> error + filesystem" where
  "os_mkdir fs p =
     (if fs p \<noteq> None then Inl FileExistsError
      else (case stat fs (parent p) of
              None \<Rightarrow> Inl FileNotFoundError
            | Some Dir \<Rightarrow> Inr (fs(p \<mapsto> Dir))
            | Some _ \<Rightarrow> Inl NotADirectoryError))"

definition os_remove :: "filesystem \<Rightarrow> string list \<Rightarrow> error + filesystem" where
  "os_remove fs p =
     (case fs p of
        None \<Rightarrow> Inl FileNotFoundError
      | Some Dir \<Rightarrow> Inl IsADirectoryError
      | Some _ \<Rightarrow> Inr (fs(p := None)))"

definition os_symlink :: "filesystem \<Rightarrow> string list \<Rightarrow> string list \<Rightarrow> error + filesystem" where
  "os_symlink fs target p =
     (if fs p \<noteq> None then Inl FileExistsError
      else (case stat fs (parent p) of
              None \<Rightarrow> Inl FileNotFoundError
            | Some Dir \<Rightarrow> Inr (fs(p \<mapsto> Symlink target))
            | Some _ \<Rightarrow> Inl NotADirectoryError))"

text \<open>
  \<^verbatim>\<open>path.mkdir(parents=True, exist_ok=True)\<close>:
  \<^verbatim>\<open>
  try:
      os.mkdir(self, mode)
  except FileNotFoundError:
      if not parents or self.parent == self: raise
      self.parent.mkdir(parents=True, exist_ok=True)
      self.mkdir(mode, parents=False, exist_ok=exist_ok)
  except OSError:
      if not exist_ok or not self.is_dir(): raise
  \<close>
\<close>

definition mkdir_exist_ok :: "filesystem \<Rightarrow> string list \<Rightarrow> error + filesystem" where
  "mkdir_exist_ok fs p =
     (case os_mkdir fs p of
        Inr fs' \<Rightarrow> Inr fs'
      | Inl FileNotFoundError \<Rightarrow> Inl FileNotFoundError
      | Inl e \<Rightarrow> if stat fs p = Some Dir then Inr fs else Inl e)"

function mkdir_parents :: "filesystem \<Rightarrow> string list \<Rightarrow> error + filesystem" where
  "mkdir_parents fs p =
     (case os_mkdir fs p of
        Inr fs' \<Rightarrow> Inr fs'
      | Inl FileNotFoundError \<Rightarrow>
          if parent p = p then Inl FileNotFoundError
          else (case mkdir_parents fs (parent p) of
                  Inl e \<Rightarrow> Inl e
                | Inr fs' \<Rightarrow> mkdir_exist_ok fs' p)
      | Inl e \<Rightarrow> if stat fs p = Some Dir then Inr fs else Inl e)"
  by pat_completeness auto
termination
  by (relation "measure (\<lambda>(fs, p). length p)") (auto simp: parent_def split: if_splits)

text \<open>
  \<^verbatim>\<open>open(p, 'w').write(s)\<close> and \<^verbatim>\<open>open(p, 'a').write(s)\<close>: through the links at the end of the
  path; the file is created when it is not there, its directory must be.
\<close>

fun follow :: "nat \<Rightarrow> filesystem \<Rightarrow> string list \<Rightarrow> string list option" where
  "follow 0 fs p = None"
| "follow (Suc n) fs p =
     (case fs p of Some (Symlink t) \<Rightarrow> follow n fs t | _ \<Rightarrow> Some p)"

definition open_write :: "bool \<Rightarrow> filesystem \<Rightarrow> string list \<Rightarrow> string \<Rightarrow> error + filesystem" where
  "open_write appending fs p s =
     (case follow 40 fs p of
        None \<Rightarrow> Inl OSError
      | Some q \<Rightarrow>
          (case fs q of
             Some Dir \<Rightarrow> Inl IsADirectoryError
           | Some (File old) \<Rightarrow> Inr (fs(q \<mapsto> File (if appending then old @ s else s)))
           | _ \<Rightarrow>
               (case stat fs (parent q) of
                  None \<Rightarrow> Inl FileNotFoundError
                | Some Dir \<Rightarrow> Inr (fs(q \<mapsto> File s))
                | Some _ \<Rightarrow> Inl NotADirectoryError)))"

subsection \<open>The environment\<close>

text \<open>
  What the module gets from outside: the home and the working directory, the release
  index of reveal.js (\<^verbatim>\<open>requests.get(releases).json()\<close>, a list of objects), the download
  of a URL with the name of the temporary file \<^verbatim>\<open>urlretrieve\<close> stores it in, the members
  \<^verbatim>\<open>tarfile\<close> reads from a file's content, which paths the operating system lets
  \<^verbatim>\<open>extractall\<close> write, the merged YAML configuration, the exit of \<^verbatim>\<open>rsync\<close>, and the result
  of the converter on \<^verbatim>\<open>presentation.md\<close>.
\<close>

record archive_member = tar_member +
  isdir :: bool
  data :: string

record env =
  home :: path
  cwd :: path
  releases :: "error + (string \<rightharpoonup> string) list"
  urlretrieve :: "string \<Rightarrow> error + string"
  tmp_file :: "string list"
  tar_members :: "string \<Rightarrow> error + archive_member list"
  writable :: "string list \<Rightarrow> bool"
  yaml_config :: "error + Config"
  rsync_error :: "error option"
  convert_file :: "error + string"

text \<open>A path as the operating system sees it: a relative one from the working directory.\<close>

definition os_path :: "env \<Rightarrow> path \<Rightarrow> string list" where
  "os_path env p = (if is_absolute p then parts p else parts (cwd env) @ parts p)"

definition path_exists :: "env \<Rightarrow> filesystem \<Rightarrow> path \<Rightarrow> bool" where
  "path_exists env fs p = (stat fs (os_path env p) \<noteq> None)"

subsection \<open>\<^verbatim>\<open>latest_revealjs_release\<close> and \<^verbatim>\<open>initialize_localdir\<close>\<close>

text \<open>
  \<^verbatim>\<open>
  latest = requests.get(releases).json()[0]
  return latest['tag_name']
  \<close>
\<close>

definition latest_revealjs_release :: "env \<Rightarrow> error + string" where
  "latest_revealjs_release env =
     (case releases env of
        Inl e \<Rightarrow> Inl e
      | Inr [] \<Rightarrow> Inl IndexError
      | Inr (latest # _) \<Rightarrow>
          (case latest ''tag_name'' of None \<Rightarrow> Inl KeyError | Some tag \<Rightarrow> Inr tag))"

text \<open>
  \<^verbatim>\<open>tar.extractall(path, members)\<close>: the members in their order, each under \<^verbatim>\<open>path\<close>, the
  directories above it created when missing; the first failure stops the extraction and
  leaves what was extracted before it.
\<close>

definition extract_member :: "env \<Rightarrow> string list \<Rightarrow> archive_member \<Rightarrow> filesystem \<Rightarrow> error + filesystem" where
  "extract_member env dir m fs =
     (let target = dir @ parts (Path [name m]) in
        if \<not> writable env target then Inl OSError
        else (case (if stat fs (parent target) = None then mkdir_parents fs (parent target) else Inr fs) of
                Inl e \<Rightarrow> Inl e
              | Inr fs' \<Rightarrow>
                  if isdir m then (case fs' target of None \<Rightarrow> Inr (fs'(target \<mapsto> Dir)) | Some _ \<Rightarrow> Inr fs')
                  else (case fs' target of
                          Some Dir \<Rightarrow> Inl IsADirectoryError
                        | _ \<Rightarrow> Inr (fs'(target \<mapsto> File (data m))))))"

fun extractall :: "env \<Rightarrow> string list \<Rightarrow> archive_member list \<Rightarrow> filesystem \<Rightarrow> (error + unit) \<times> filesystem" where
  "extractall env dir [] fs = (Inr (), fs)"
| "extractall env dir (m # members) fs =
     (case extract_member env dir m fs of
        Inl e \<Rightarrow> (Inl e, fs)
      | Inr fs' \<Rightarrow> extractall env dir members fs')"

text \<open>
  The block under \<^verbatim>\<open>if not reveal_path.exists():\<close>.
  \<^verbatim>\<open>
  if reveal_version == 'latest':
      reveal_version = latest_revealjs_release()
  url = 'https://github.com/hakimel/reveal.js/archive/%s.tar.gz'
  url = url % reveal_version
  reveal_tar, headers = urlretrieve(url)
  with tarfile.open(reveal_tar) as tar:
      members = clean_revealjs_tar_members(tar.getmembers())
      tar.extractall(reveal_path, members)
  os.remove(reveal_tar)
  \<close>
\<close>

definition download_revealjs :: "env \<Rightarrow> path \<Rightarrow> string \<Rightarrow> filesystem \<Rightarrow> (error + unit) \<times> filesystem" where
  "download_revealjs env reveal_path reveal_version fs =
     (case (if reveal_version = ''latest'' then latest_revealjs_release env else Inr reveal_version) of
        Inl e \<Rightarrow> (Inl e, fs)
      | Inr version \<Rightarrow>
          (case urlretrieve env (''https://github.com/hakimel/reveal.js/archive/'' @ version @ ''.tar.gz'') of
             Inl e \<Rightarrow> (Inl e, fs)
           | Inr content \<Rightarrow>
               (let reveal_tar = tmp_file env; fs1 = fs(reveal_tar \<mapsto> File content) in
                  case tar_members env content of
                    Inl e \<Rightarrow> (Inl e, fs1)
                  | Inr members \<Rightarrow>
                      (case extractall env (os_path env reveal_path) (clean_revealjs_tar_members members) fs1 of
                         (Inl e, fs2) \<Rightarrow> (Inl e, fs2)
                       | (Inr _, fs2) \<Rightarrow>
                           (case os_remove fs2 reveal_tar of
                              Inl e \<Rightarrow> (Inl e, fs2)
                            | Inr fs3 \<Rightarrow> (Inr (), fs3))))))"

text \<open>
  \<^verbatim>\<open>
  symlink = outdir / 'revealjs'
  if symlink.exists():
      symlink.unlink()
  symlink.symlink_to(reveal_path, target_is_directory=True)
  \<close>
\<close>

definition update_symlink :: "env \<Rightarrow> path \<Rightarrow> path \<Rightarrow> filesystem \<Rightarrow> error + filesystem" where
  "update_symlink env outdir reveal_path fs =
     (let symlink = joinpath outdir ''revealjs'' in
        case (if path_exists env fs symlink then os_remove fs (os_path env symlink) else Inr fs) of
          Inl e \<Rightarrow> Inl e
        | Inr fs' \<Rightarrow> os_symlink fs' (os_path env reveal_path) (os_path env symlink))"

text \<open>
  \<^verbatim>\<open>
  outdir = localdir / 'out'
  outdir.mkdir(parents=True, exist_ok=True)
  reveal_path = localdir / reveal_version
  if not reveal_path.exists():
      ...
  symlink = ...
  return outdir
  \<close>
\<close>

definition initialize_localdir :: "env \<Rightarrow> path \<Rightarrow> string \<Rightarrow> filesystem \<Rightarrow> (error + path) \<times> filesystem" where
  "initialize_localdir env localdir reveal_version fs =
     (let outdir = joinpath localdir ''out'' in
        case mkdir_parents fs (os_path env outdir) of
          Inl e \<Rightarrow> (Inl e, fs)
        | Inr fs1 \<Rightarrow>
            (let reveal_path = joinpath localdir reveal_version in
               case (if \<not> path_exists env fs1 reveal_path
                     then download_revealjs env reveal_path reveal_version fs1
                     else (Inr (), fs1)) of
                 (Inl e, fs2) \<Rightarrow> (Inl e, fs2)
               | (Inr _, fs2) \<Rightarrow>
                   (case update_symlink env outdir reveal_path fs2 of
                      Inl e \<Rightarrow> (Inl e, fs2)
                    | Inr fs3 \<Rightarrow> (Inr outdir, fs3))))"

subsection \<open>\<^verbatim>\<open>load_config\<close> and \<^verbatim>\<open>generate\<close>\<close>

text \<open>
  \<^verbatim>\<open>load_config\<close>: the packaged template updated with \<^verbatim>\<open>config.yaml\<close> is the environment's
  \<open>yaml_config\<close>; the function then sets the two paths. (\<^verbatim>\<open>reveal_extra\<close>, a nested mapping
  that only the converter reads, is part of the converter's result.)
  \<^verbatim>\<open>
  config['local_path'] = Path.home() / config['local_path']
  config['output_path'] = config['local_path'] / 'out'
  config['reveal_extra']['theme'] = config['theme']
  \<close>
\<close>

definition load_config :: "env \<Rightarrow> error + Config" where
  "load_config env =
     (case yaml_config env of
        Inl e \<Rightarrow> Inl e
      | Inr config \<Rightarrow>
          (case getitem config ''local_path'' of
             Inl e \<Rightarrow> Inl e
           | Inr PNone \<Rightarrow> Inl TypeError
           | Inr v \<Rightarrow>
               (let local_path = joinpath (home env) (fmt v);
                    config' = config(''local_path'' \<mapsto> PPath local_path,
                                     ''output_path'' \<mapsto> PPath (joinpath local_path ''out''))
                in case getitem config' ''theme'' of Inl e \<Rightarrow> Inl e | Inr _ \<Rightarrow> Inr config')))"

text \<open>
  \<^verbatim>\<open>rsync --delete --exclude revealjs --exclude .git -av SRC/ DST/\<close>: after it, what is
  under \<^verbatim>\<open>DST\<close> is what is under \<^verbatim>\<open>SRC\<close>, extraneous entries of \<^verbatim>\<open>DST\<close> deleted; an entry
  with a part named \<^verbatim>\<open>revealjs\<close> or \<^verbatim>\<open>.git\<close> is neither copied nor deleted. \<^verbatim>\<open>check_output\<close>
  raises when \<^verbatim>\<open>rsync\<close> fails.
\<close>

definition excluded :: "string list \<Rightarrow> bool" where
  "excluded r = (''revealjs'' \<in> set r \<or> ''.git'' \<in> set r)"

definition rsync :: "env \<Rightarrow> string list \<Rightarrow> string list \<Rightarrow> filesystem \<Rightarrow> error + filesystem" where
  "rsync env src dst fs =
     (case rsync_error env of
        Some e \<Rightarrow> Inl e
      | None \<Rightarrow>
          if stat fs src \<noteq> Some Dir then Inl CalledProcessError
          else if fs dst = None \<and> stat fs (parent dst) \<noteq> Some Dir then Inl CalledProcessError
          else Inr (\<lambda>q. if q = dst then (case fs dst of None \<Rightarrow> Some Dir | Some n \<Rightarrow> Some n)
                         else if prefix dst q then
                           (let r = drop (length dst) q in if excluded r then fs q else fs (src @ r))
                         else fs q))"

text \<open>
  \<^verbatim>\<open>
  config = load_config()
  reveal_path = initialize_localdir(config['local_path'], config['reveal_version'])
  input_file = Path('presentation.md')
  command = ['rsync', '--delete', '--exclude', 'revealjs', '--exclude', '.git', '-av',
             '%s/' % input_file.resolve().parent, '%s/' % config['output_path']]
  check_output(command)
  output = markdown_to_reveal(input_file, reveal_extra=config['reveal_extra'])
  output = tweak_html(output, config)
  index = config['output_path'] / 'index.html'
  index.write_text(output)
  with open(config['output_path'] / '.reload', 'a') as f:
      f.write('x\n')
  \<close>
  \<^verbatim>\<open>presentation.md\<close> is taken not to be a symbolic link, so that the directory of
  \<^verbatim>\<open>input_file.resolve()\<close> is the working directory. The converter's result is the
  environment's \<open>convert_file\<close>.
\<close>

definition generate :: "env \<Rightarrow> filesystem \<Rightarrow> (error + unit) \<times> filesystem" where
  "generate env fs =
     (case load_config env of Inl e \<Rightarrow> (Inl e, fs) | Inr config \<Rightarrow>
      case getitem config ''local_path'' of Inl e \<Rightarrow> (Inl e, fs) | Inr lp \<Rightarrow>
      case getitem config ''reveal_version'' of Inl e \<Rightarrow> (Inl e, fs) | Inr rv \<Rightarrow>
      case (lp, rv) of
        (PPath local_path, PStr reveal_version) \<Rightarrow>
          (case initialize_localdir env local_path reveal_version fs of
             (Inl e, fs1) \<Rightarrow> (Inl e, fs1)
           | (Inr reveal_path, fs1) \<Rightarrow>
              (case getitem config ''output_path'' of Inl e \<Rightarrow> (Inl e, fs1) | Inr out \<Rightarrow>
               case rsync env (os_path env (cwd env)) (os_path env (Path [fmt out])) fs1 of
                 Inl e \<Rightarrow> (Inl e, fs1)
               | Inr fs2 \<Rightarrow>
                  (case convert_file env of Inl e \<Rightarrow> (Inl e, fs2) | Inr output \<Rightarrow>
                   case tweak_html (path_exists env fs2) output config of
                     Inl e \<Rightarrow> (Inl e, fs2)
                   | Inr output' \<Rightarrow>
                      (case out of
                         PPath output_path \<Rightarrow>
                           (case open_write False fs2 (os_path env (joinpath output_path ''index.html'')) output' of
                              Inl e \<Rightarrow> (Inl e, fs2)
                            | Inr fs3 \<Rightarrow>
                               (case open_write True fs3 (os_path env (joinpath output_path ''.reload''))
                                       ''x\<newline>'' of
                                  Inl e \<Rightarrow> (Inl e, fs3)
                                | Inr fs4 \<Rightarrow> (Inr (), fs4)))
                       | _ \<Rightarrow> (Inl TypeError, fs2)))))
      | _ \<Rightarrow> (Inl TypeError, fs))"

subsection \<open>Example environments\<close>

text \<open>
  A user \<^verbatim>\<open>/h\<close> working in \<^verbatim>\<open>/p\<close>. The latest release of reveal.js is 3.6.0; its archive has
  the top-level directory, a script and a test.
\<close>

definition example_archive :: "archive_member list" where
  "example_archive =
     [\<lparr>name = ''reveal.js-3.6.0/'', isdir = True, data = []\<rparr>,
      \<lparr>name = ''reveal.js-3.6.0/js/reveal.js'', isdir = False, data = ''JS''\<rparr>,
      \<lparr>name = ''reveal.js-3.6.0/test/t.js'', isdir = False, data = ''T''\<rparr>]"

definition example_download :: "string \<Rightarrow> error + string" where
  "example_download url =
     (if url = ''https://github.com/hakimel/reveal.js/archive/3.6.0.tar.gz'' then Inr ''TAR''
      else Inl URLError)"

definition example_tar :: "string \<Rightarrow> error + archive_member list" where
  "example_tar content = (if content = ''TAR'' then Inr example_archive else Inl ReadError)"

definition all_writable :: "string list \<Rightarrow> bool" where
  "all_writable p = True"

definition none_writable :: "string list \<Rightarrow> bool" where
  "none_writable p = False"

definition example_config :: "string \<Rightarrow> Config" where
  "example_config version =
     map_of [(''local_path'', PStr ''.markdownreveal''), (''reveal_version'', PStr version),
             (''theme'', PStr ''black''), (''custom_css'', PStr ''''),
             (''warmup'', PStr ''warmup.png''), (''footer'', PStr ''''), (''header'', PStr ''''),
             (''logo'', PStr ''logo.png''), (''background'', PStr ''background.png'')]"

definition example_env :: "string \<Rightarrow> env" where
  "example_env version =
     \<lparr>home = Path [''/h''], cwd = Path [''/p''],
      releases = Inr [map_of [(''tag_name'', ''3.6.0'')]],
      urlretrieve = example_download,
      tmp_file = [''/'', ''tmp'', ''tmp1''],
      tar_members = example_tar,
      writable = all_writable,
      yaml_config = Inr (example_config version),
      rsync_error = None,
      convert_file = Inl ConverterError\<rparr>"

text \<open>Before the first run: the home and the presentation directory.\<close>

definition fresh_fs :: filesystem where
  "fresh_fs =
     map_of [([''/''], Dir), ([''/'', ''tmp''], Dir), ([''/'', ''h''], Dir), ([''/'', ''p''], Dir),
             ([''/'', ''p'', ''presentation.md''], File ''# Title'')]"

text \<open>
  After a run with version 3.0.0 whose version directory has been removed since: the
  link \<^verbatim>\<open>out/revealjs\<close> dangles.
\<close>

definition dangling_fs :: filesystem where
  "dangling_fs =
     map_of [([''/''], Dir), ([''/'', ''tmp''], Dir), ([''/'', ''h''], Dir), ([''/'', ''p''], Dir),
             ([''/'', ''h'', ''.markdownreveal''], Dir),
             ([''/'', ''h'', ''.markdownreveal'', ''out''], Dir),
             ([''/'', ''h'', ''.markdownreveal'', ''out'', ''revealjs''],
                Symlink [''/'', ''h'', ''.markdownreveal'', ''3.0.0''])]"

text \<open>After a build with version 3.6.0: the deck and one line in \<^verbatim>\<open>.reload\<close>.\<close>

definition built_fs :: filesystem where
  "built_fs =
     map_of [([''/''], Dir), ([''/'', ''tmp''], Dir), ([''/'', ''h''], Dir), ([''/'', ''p''], Dir),
             ([''/'', ''p'', ''presentation.md''], File ''# Title''),
             ([''/'', ''h'', ''.markdownreveal''], Dir),
             ([''/'', ''h'', ''.markdownreveal'', ''3.6.0''], Dir),
             ([''/'', ''h'', ''.markdownreveal'', ''out''], Dir),
             ([''/'', ''h'', ''.markdownreveal'', ''out'', ''revealjs''],
                Symlink [''/'', ''h'', ''.markdownreveal'', ''3.6.0'']),
             ([''/'', ''h'', ''.markdownreveal'', ''out'', ''presentation.md''], File ''# Title''),
             ([''/'', ''h'', ''.markdownreveal'', ''out'', ''index.html''], File ''<html>deck</html>''),
             ([''/'', ''h'', ''.markdownreveal'', ''out'', ''.reload''], File ''x\<newline>'')]"

section \<open>Properties\<close>

subsection \<open>Splitting and joining\<close>

lemma str_split_nonempty: "str_split c s \<noteq> []"
  by (induction s) (auto split: list.splits)

lemma str_split_no_sep: "x \<in> set (str_split c s) \<Longrightarrow> c \<notin> set x"
proof (induction s arbitrary: x)
  case Nil
  then show ?case by simp
next
  case (Cons a s)
  show ?case
  proof (cases "a = c")
    case True
    with Cons show ?thesis by auto
  next
    case False
    from str_split_nonempty [of c s] obtain w ws where ws: "str_split c s = w # ws"
      by (cases "str_split c s") auto
    with Cons.prems False have "x = a # w \<or> x \<in> set ws" by simp
    moreover have "c \<notin> set w" "\<forall>y\<in>set ws. c \<notin> set y" using Cons.IH ws by simp_all
    ultimately show ?thesis using False by auto
  qed
qed

lemma str_split_id: "c \<notin> set x \<Longrightarrow> str_split c x = [x]"
  by (induction x) auto

lemma str_split_append_sep: "c \<notin> set x \<Longrightarrow> str_split c (x @ c # r) = x # str_split c r"
  by (induction x) (auto split: list.splits)

lemma str_split_join:
  "xs \<noteq> [] \<Longrightarrow> \<forall>x\<in>set xs. c \<notin> set x \<Longrightarrow> str_split c (str_join [c] xs) = xs"
proof (induction "[c]" xs rule: str_join.induct)
  case 1
  then show ?case by simp
next
  case (2 x)
  then show ?case by (simp add: str_split_id)
next
  case (3 x y ys)
  then show ?case by (simp add: str_split_append_sep)
qed

lemma str_join_hd: "xs \<noteq> [] \<Longrightarrow> hd xs \<noteq> [] \<Longrightarrow> str_join s xs \<noteq> [] \<and> hd (str_join s xs) = hd (hd xs)"
  by (induction s xs rule: str_join.induct) auto

lemma splitroot_relative: "x \<noteq> [] \<Longrightarrow> hd x \<noteq> CHR ''/'' \<Longrightarrow> splitroot x = ([], x)"
  by (simp add: splitroot_def)

lemma splitroot_root: "fst (splitroot x) \<noteq> [] \<longleftrightarrow> (x \<noteq> [] \<and> hd x = CHR ''/'')"
  by (simp add: splitroot_def Let_def)

lemma comp_ok_hd: "comp_ok x \<Longrightarrow> x \<noteq> [] \<and> hd x \<noteq> CHR ''/''"
  by (cases x) (auto simp: comp_ok_def)

lemma parse_parts_clean:
  "\<forall>x\<in>set it. comp_ok x \<Longrightarrow> parse_parts it acc = \<lparr>root = [], parts = rev it @ acc\<rparr>"
proof (induction it arbitrary: acc)
  case Nil
  then show ?case by simp
next
  case (Cons x it)
  then have ok: "comp_ok x" by simp
  then have sr: "splitroot x = ([], x)"
    using comp_ok_hd splitroot_relative by blast
  have sp: "str_split CHR ''/'' x = [x]"
    using ok by (simp add: comp_ok_def str_split_id)
  from ok have ne: "x \<noteq> []" "x \<noteq> ''.''" by (auto simp: comp_ok_def)
  show ?case using Cons.IH [of "x # acc"] Cons.prems ne by (simp add: sr sp)
qed

lemma Path_clean: "\<forall>x\<in>set ps. comp_ok x \<Longrightarrow> Path ps = \<lparr>root = [], parts = ps\<rparr>"
  by (simp add: Path_def parse_parts_clean)

lemma Path_single:
  "Path [s] =
     (if s \<noteq> [] \<and> hd s = CHR ''/'' then
        \<lparr>root = fst (splitroot s),
         parts = fst (splitroot s) # filter (\<lambda>x. x \<noteq> [] \<and> x \<noteq> ''.'') (str_split CHR ''/'' (snd (splitroot s)))\<rparr>
      else \<lparr>root = [], parts = filter (\<lambda>x. x \<noteq> [] \<and> x \<noteq> ''.'') (str_split CHR ''/'' s)\<rparr>)"
proof (cases "s = []")
  case True
  then show ?thesis by (simp add: Path_def)
next
  case False
  then show ?thesis
    by (cases "hd s = CHR ''/''") (auto simp: Path_def splitroot_def Let_def)
qed

lemma Path_single_absolute: "is_absolute (Path [s]) \<longleftrightarrow> (s \<noteq> [] \<and> hd s = CHR ''/'')"
  by (auto simp: Path_single is_absolute_def splitroot_def Let_def)

lemma Path_single_relative_parts:
  assumes "\<not> is_absolute (Path [s])" and "x \<in> set (parts (Path [s]))"
  shows "comp_ok x"
proof -
  from assms(1) have "\<not> (s \<noteq> [] \<and> hd s = CHR ''/'')"
    by (simp add: Path_single_absolute)
  then have "parts (Path [s]) = filter (\<lambda>x. x \<noteq> [] \<and> x \<noteq> ''.'') (str_split CHR ''/'' s)"
    by (simp only: Path_single if_False path.simps)
  with assms(2) have "x \<in> set (str_split CHR ''/'' s)" "x \<noteq> []" "x \<noteq> ''.''"
    by auto
  then show ?thesis
    using str_split_no_sep [of x "CHR ''/''" s] by (simp add: comp_ok_def)
qed

lemma Path_single_relative:
  "\<not> (s \<noteq> [] \<and> hd s = CHR ''/'') \<Longrightarrow>
     Path [s] = \<lparr>root = [], parts = filter (\<lambda>x. x \<noteq> [] \<and> x \<noteq> ''.'') (str_split CHR ''/'' s)\<rparr>"
  by (simp only: Path_single if_False)

lemma Path_roundtrip:
  assumes ne: "ps \<noteq> []" and ok: "\<forall>x\<in>set ps. comp_ok x"
  shows "Path [str_join ''/'' ps] = \<lparr>root = [], parts = ps\<rparr>"
proof -
  from ne obtain p ps' where ps: "ps = p # ps'" by (cases ps) auto
  with ok have "comp_ok p" by simp
  then have h: "hd ps \<noteq> []" "hd (hd ps) \<noteq> CHR ''/''"
    using comp_ok_hd [of p] ps by simp_all
  have j: "hd (str_join ''/'' ps) \<noteq> CHR ''/''"
    using str_join_hd [OF ne h(1), of "''/''"] h(2) by simp
  have sp: "str_split CHR ''/'' (str_join ''/'' ps) = ps"
    using str_split_join [OF ne, of "CHR ''/''"] ok by (simp add: comp_ok_def)
  have f: "filter (\<lambda>x. x \<noteq> [] \<and> x \<noteq> ''.'') ps = ps"
    using ok by (simp add: comp_ok_def)
  have "Path [str_join ''/'' ps] =
      \<lparr>root = [], parts = filter (\<lambda>x. x \<noteq> [] \<and> x \<noteq> ''.'') (str_split CHR ''/'' (str_join ''/'' ps))\<rparr>"
    using j by (intro Path_single_relative) simp
  then show ?thesis by (simp only: sp f)
qed

lemma path_str_relative:
  assumes "ps \<noteq> []" "hd ps \<noteq> []"
  shows "path_str \<lparr>root = [], parts = ps\<rparr> = str_join ''/'' ps"
proof -
  have "str_join ''/'' ps \<noteq> []" using str_join_hd [OF assms, of "''/''"] by simp
  then show ?thesis by (simp add: path_str_def Let_def)
qed

lemma strip_top_level:
  assumes rel: "\<not> is_absolute (Path [s])" and ne: "drop 1 (parts (Path [s])) \<noteq> []"
  shows "Path [path_str (Path (drop 1 (parts (Path [s]))))] =
           \<lparr>root = [], parts = drop 1 (parts (Path [s]))\<rparr>"
proof -
  define ps where "ps = drop 1 (parts (Path [s]))"
  have ok: "\<forall>x\<in>set ps. comp_ok x"
    unfolding ps_def
    using rel Path_single_relative_parts [of s] in_set_dropD [of _ 1 "parts (Path [s])"] by blast
  have ne': "ps \<noteq> []" using ne by (simp add: ps_def)
  then have "hd ps \<in> set ps" by simp
  with ok have "hd ps \<noteq> []" using comp_ok_hd by blast
  then have "path_str \<lparr>root = [], parts = ps\<rparr> = str_join ''/'' ps"
    using ne' by (rule path_str_relative [rotated])
  moreover have "Path ps = \<lparr>root = [], parts = ps\<rparr>" using ok by (rule Path_clean)
  ultimately have "path_str (Path ps) = str_join ''/'' ps" by simp
  then have "Path [path_str (Path ps)] = \<lparr>root = [], parts = ps\<rparr>"
    using Path_roundtrip [OF ne' ok] by simp
  then show ?thesis by (simp only: ps_def)
qed

subsection \<open>Cleaning the archive members\<close>

lemma clean_length: "length (clean_revealjs_tar_members ms) \<le> length ms"
  by (induction ms) (simp_all add: Let_def le_SucI)

lemma clean_Cons:
  "clean_revealjs_tar_members (a # ms) =
     (if is_absolute (Path [name a]) \<or> drop 1 (parts (Path [name a])) = [] \<or>
         hd (drop 1 (parts (Path [name a]))) = ''test''
      then clean_revealjs_tar_members ms
      else a\<lparr>name := path_str (Path (drop 1 (parts (Path [name a]))))\<rparr> #
           clean_revealjs_tar_members ms)"
  by (simp add: Let_def)

lemma clean_member_origin:
  "m' \<in> set (clean_revealjs_tar_members ms) \<Longrightarrow>
     \<exists>m\<in>set ms. \<not> is_absolute (Path [name m]) \<and> drop 1 (parts (Path [name m])) \<noteq> [] \<and>
        hd (drop 1 (parts (Path [name m]))) \<noteq> ''test'' \<and>
        m' = m\<lparr>name := path_str (Path (drop 1 (parts (Path [name m]))))\<rparr>"
proof (induction ms)
  case Nil
  then show ?case by simp
next
  case (Cons a ms)
  show ?case
  proof (cases "m' \<in> set (clean_revealjs_tar_members ms)")
    case True
    with Cons.IH show ?thesis by (metis list.set_intros(2))
  next
    case False
    with Cons.prems have
      "\<not> (is_absolute (Path [name a]) \<or> drop 1 (parts (Path [name a])) = [] \<or>
         hd (drop 1 (parts (Path [name a]))) = ''test'')"
      and "m' = a\<lparr>name := path_str (Path (drop 1 (parts (Path [name a]))))\<rparr>"
      by (auto simp only: clean_Cons set_simps split: if_splits)
    then show ?thesis by (metis list.set_intros(1))
  qed
qed

text \<open>
  Claim C3. For every member list, every member that \<^verbatim>\<open>clean_revealjs_tar_members\<close> keeps has
  a relative path, its path is not empty, its first component is not \<^verbatim>\<open>test\<close>, and it is
  a member of the input (the other fields untouched) whose path lost exactly its
  top-level component; the cleaned list is no longer than the input.
\<close>

theorem clean_revealjs_tar_members_invariant:
  "length (clean_revealjs_tar_members ms) \<le> length ms \<and>
   (\<forall>m' \<in> set (clean_revealjs_tar_members ms).
       \<not> is_absolute (Path [name m']) \<and>
       parts (Path [name m']) \<noteq> [] \<and>
       hd (parts (Path [name m'])) \<noteq> ''test'' \<and>
       (\<exists>m \<in> set ms. m' = m\<lparr>name := name m'\<rparr> \<and>
           \<not> is_absolute (Path [name m]) \<and>
           parts (Path [name m]) = hd (parts (Path [name m])) # parts (Path [name m'])))"
proof (intro conjI ballI)
  show "length (clean_revealjs_tar_members ms) \<le> length ms"
    by (rule clean_length)
next
  fix m' assume "m' \<in> set (clean_revealjs_tar_members ms)"
  then obtain m where m: "m \<in> set ms" "\<not> is_absolute (Path [name m])"
      "drop 1 (parts (Path [name m])) \<noteq> []" "hd (drop 1 (parts (Path [name m]))) \<noteq> ''test''"
      "m' = m\<lparr>name := path_str (Path (drop 1 (parts (Path [name m]))))\<rparr>"
    using clean_member_origin by blast
  define ps where "ps = drop 1 (parts (Path [name m]))"
  have nm: "name m' = path_str (Path ps)" using m(5) by (simp add: ps_def)
  have rt: "Path [name m'] = \<lparr>root = [], parts = ps\<rparr>"
    unfolding nm ps_def using m(2) m(3) by (rule strip_top_level)
  have ps: "ps \<noteq> []" "hd ps \<noteq> ''test''" using m(3) m(4) by (simp_all only: ps_def not_False_eq_True)
  have full: "parts (Path [name m]) = hd (parts (Path [name m])) # ps"
    using m(3) unfolding ps_def by (cases "parts (Path [name m])") simp_all
  show "\<not> is_absolute (Path [name m'])" by (simp add: rt is_absolute_def)
  show "parts (Path [name m']) \<noteq> []" using ps(1) by (simp add: rt)
  show "hd (parts (Path [name m'])) \<noteq> ''test''" using ps(2) by (simp add: rt)
  have "m' = m\<lparr>name := name m'\<rparr>" using m(5) by simp
  moreover have "parts (Path [name m]) = hd (parts (Path [name m])) # parts (Path [name m'])"
    using full by (simp add: rt)
  ultimately show "\<exists>m \<in> set ms. m' = m\<lparr>name := name m'\<rparr> \<and>
           \<not> is_absolute (Path [name m]) \<and>
           parts (Path [name m]) = hd (parts (Path [name m])) # parts (Path [name m'])"
    using m(1) m(2) by blast
qed

theorem clean_revealjs_tar_members_invariant_witness:
  "clean_revealjs_tar_members
     [\<lparr>name = ''reveal.js-3.0/css/a.css''\<rparr>, \<lparr>name = ''/etc/passwd''\<rparr>,
      \<lparr>name = ''reveal.js-3.0''\<rparr>, \<lparr>name = ''reveal.js-3.0/test/x.js''\<rparr>]
     = [\<lparr>name = ''css/a.css''\<rparr>] \<and>
   \<not> is_absolute (Path [''css/a.css'']) \<and>
   parts (Path [''css/a.css'']) = [''css'', ''a.css''] \<and>
   parts (Path [''reveal.js-3.0/css/a.css'']) = [''reveal.js-3.0'', ''css'', ''a.css'']"
  using clean_revealjs_tar_members_invariant
    [of "[\<lparr>name = ''reveal.js-3.0/css/a.css''\<rparr>, \<lparr>name = ''/etc/passwd''\<rparr>,
      \<lparr>name = ''reveal.js-3.0''\<rparr>, \<lparr>name = ''reveal.js-3.0/test/x.js''\<rparr>]"]
  by (simp add: Path_def splitroot_def is_absolute_def path_str_def Let_def)
subsection \<open>Lines and matches\<close>



lemma linebreak_LF: "linebreak (CHR 0x0A)"
  by (simp add: linebreak_def)


lemma enumerate_nth: "enumerate 0 xs = map (\<lambda>i. (i, xs ! i)) [0..<length xs]"
  by (rule nth_equalityI) (simp_all add: nth_enumerate_eq)

lemma find_indexes_filter:
  "find_indexes haystack regex = filter (\<lambda>i. re_search regex (haystack ! i)) [0..<length haystack]"
  by (simp add: find_indexes_def enumerate_nth filter_map comp_def)

lemma find_indexes_Nil_iff:
  "find_indexes haystack regex = [] \<longleftrightarrow> (\<forall>item\<in>set haystack. \<not> re_search regex item)"
  by (auto simp: find_indexes_filter filter_empty_conv in_set_conv_nth Ball_def)

lemma find_indexes_first:
  assumes "i < length haystack" "re_search regex (haystack ! i)"
    and "\<forall>j<i. \<not> re_search regex (haystack ! j)"
  shows "\<exists>rest. find_indexes haystack regex = i # rest"
proof -
  have "[0..<length haystack] = [0..<i] @ i # [Suc i..<length haystack]"
    using assms(1) by (metis less_imp_add_positive upt_add_eq_append upt_conv_Cons zero_le le_add1 add.commute  less_or_eq_imp_le upt_rec)
  moreover have "filter (\<lambda>i. re_search regex (haystack ! i)) [0..<i] = []"
    using assms(3) by (simp add: filter_empty_conv)
  ultimately show ?thesis using assms(2) by (simp add: find_indexes_filter)
qed

subsection \<open>The HTML post-processor\<close>

lemma tweak_warmup_disabled: "path_disabled exists config ''warmup'' \<Longrightarrow> tweak_warmup exists config html = Inr html"
  by (auto simp: path_disabled_def tweak_warmup_def getitem_def split: option.splits sum.splits)

lemma tweak_logo_disabled: "path_disabled exists config ''logo'' \<Longrightarrow> tweak_logo exists config html = Inr html"
  by (auto simp: path_disabled_def tweak_logo_def getitem_def split: option.splits sum.splits)

lemma tweak_background_disabled:
  "path_disabled exists config ''background'' \<Longrightarrow> tweak_background exists config html = Inr html"
  by (auto simp: path_disabled_def tweak_background_def getitem_def split: option.splits sum.splits)

lemma tweak_footer_disabled: "string_disabled config ''footer'' \<Longrightarrow> tweak_footer config html = Inr html"
  by (auto simp: string_disabled_def tweak_footer_def getitem_def split: option.splits)

lemma tweak_header_disabled: "string_disabled config ''header'' \<Longrightarrow> tweak_header config html = Inr html"
  by (auto simp: string_disabled_def tweak_header_def getitem_def split: option.splits)


lemma tweak_decorations_disabled:
  "decorations_disabled exists config \<Longrightarrow> tweak_decorations exists config html = Inr (str_join [CHR 0x0A] html)"
  by (simp add: decorations_disabled_def tweak_decorations_def tweak_warmup_disabled
      tweak_logo_disabled tweak_background_disabled tweak_footer_disabled tweak_header_disabled)




text \<open>
  Claim C6. With a truthy \<^verbatim>\<open>custom_css\<close>: when no line matches the stylesheet marker,
  \<^verbatim>\<open>tweak_html\<close> raises \<^verbatim>\<open>IndexError\<close>; when line \<open>i\<close> is the first that matches, the
  \<^verbatim>\<open><link>\<close> line is inserted right after it, the later steps work on that list, and it is
  the result when they are off.
\<close>

theorem tweak_html_custom_css:
  assumes "config ''custom_css'' = Some v" and "truthy v"
  shows
    \<open>((\<forall>item\<in>set (splitlines html). \<not> re_search ''stylesheet.*id="theme"'' item)
        \<longrightarrow> tweak_html exists html config = Inl IndexError) \<and>
     (\<forall>i. i < length (splitlines html) \<and>
          re_search ''stylesheet.*id="theme"'' (splitlines html ! i) \<and>
          (\<forall>j<i. \<not> re_search ''stylesheet.*id="theme"'' (splitlines html ! j))
        \<longrightarrow> tweak_custom_css config (splitlines html) =
              Inr (take (Suc i) (splitlines html) @
                   [''<link rel="stylesheet" href="'' @ fmt v @ ''">''] @
                   drop (Suc i) (splitlines html)) \<and>
            tweak_html exists html config =
              tweak_decorations exists config
                (take (Suc i) (splitlines html) @
                 [''<link rel="stylesheet" href="'' @ fmt v @ ''">''] @
                 drop (Suc i) (splitlines html)) \<and>
            (decorations_disabled exists config \<longrightarrow>
               tweak_html exists html config =
                 Inr (str_join [CHR 0x0A]
                   (take (Suc i) (splitlines html) @
                    [''<link rel="stylesheet" href="'' @ fmt v @ ''">''] @
                    drop (Suc i) (splitlines html)))))\<close>
proof (intro conjI allI impI)
  assume \<open>\<forall>item\<in>set (splitlines html). \<not> re_search ''stylesheet.*id="theme"'' item\<close>
  then have \<open>find_indexes (splitlines html) ''stylesheet.*id="theme"'' = []\<close>
    by (simp add: find_indexes_Nil_iff)
  then show "tweak_html exists html config = Inl IndexError"
    using assms by (simp add: tweak_html_def tweak_custom_css_def getitem_def)
next
  fix i
  assume i: \<open>i < length (splitlines html) \<and>
          re_search ''stylesheet.*id="theme"'' (splitlines html ! i) \<and>
          (\<forall>j<i. \<not> re_search ''stylesheet.*id="theme"'' (splitlines html ! j))\<close>
  then obtain rest where \<open>find_indexes (splitlines html) ''stylesheet.*id="theme"'' = i # rest\<close>
    using find_indexes_first by blast
  then show css: \<open>tweak_custom_css config (splitlines html) =
              Inr (take (Suc i) (splitlines html) @
                   [''<link rel="stylesheet" href="'' @ fmt v @ ''">''] @
                   drop (Suc i) (splitlines html))\<close>
    using assms by (simp add: tweak_custom_css_def getitem_def list_insert_def)
  then show dec: \<open>tweak_html exists html config =
              tweak_decorations exists config
                (take (Suc i) (splitlines html) @
                 [''<link rel="stylesheet" href="'' @ fmt v @ ''">''] @
                 drop (Suc i) (splitlines html))\<close>
    by (simp add: tweak_html_def)
  assume "decorations_disabled exists config"
  then show \<open>tweak_html exists html config =
                 Inr (str_join [CHR 0x0A]
                   (take (Suc i) (splitlines html) @
                    [''<link rel="stylesheet" href="'' @ fmt v @ ''">''] @
                    drop (Suc i) (splitlines html)))\<close>
    unfolding dec by (rule tweak_decorations_disabled)
qed

theorem tweak_html_custom_css_witness:
  \<open>tweak_html only_cwd ''<body>''
     (decoration_config (PStr ''my.css'') (PStr ''w.png'') PNone PNone (PStr ''l.png'') (PStr ''b.png''))
     = Inl IndexError \<and>
   tweak_html only_cwd ''<head>\<newline>stylesheet id="theme"\<newline></head>''
     (decoration_config (PStr ''my.css'') (PStr ''w.png'') PNone PNone (PStr ''l.png'') (PStr ''b.png''))
     = Inr ''<head>\<newline>stylesheet id="theme"\<newline><link rel="stylesheet" href="my.css">\<newline></head>''\<close>
proof -
  let ?config = "decoration_config (PStr ''my.css'') (PStr ''w.png'') PNone PNone (PStr ''l.png'') (PStr ''b.png'')"
  have c: "?config ''custom_css'' = Some (PStr ''my.css'')" "truthy (PStr ''my.css'')"
    by (simp_all add: decoration_config_def only_cwd_def nothing_exists_def)
  have d: "decorations_disabled only_cwd ?config"
    by (simp add: decorations_disabled_def path_disabled_def string_disabled_def
        decoration_config_def only_cwd_def nothing_exists_def Path_def splitroot_def)
  have l1: \<open>splitlines ''<body>'' = [''<body>'']\<close>
    by (simp add: linebreak_def)
  have l2: \<open>splitlines ''<head>\<newline>stylesheet id="theme"\<newline></head>'' =
      [''<head>'', ''stylesheet id="theme"'', ''</head>'']\<close>
    by (simp add: linebreak_def)
  have m: \<open>\<not> re_search ''stylesheet.*id="theme"'' ''<body>''\<close>
    \<open>\<not> re_search ''stylesheet.*id="theme"'' ''<head>''\<close>
    \<open>re_search ''stylesheet.*id="theme"'' ''stylesheet id="theme"''\<close>
    by (simp_all add: re_search_def atom_of_def)
  from tweak_html_custom_css [where config = ?config and v = "PStr ''my.css''"
      and html = "''<body>''" and exists = only_cwd, OF c]
  have a: \<open>tweak_html only_cwd ''<body>'' ?config = Inl IndexError\<close>
    using m unfolding l1 by simp
  from tweak_html_custom_css [where config = ?config and v = "PStr ''my.css''"
      and html = \<open>''<head>\<newline>stylesheet id="theme"\<newline></head>''\<close> and exists = only_cwd, OF c]
  have b: \<open>tweak_html only_cwd ''<head>\<newline>stylesheet id="theme"\<newline></head>'' ?config =
     Inr ''<head>\<newline>stylesheet id="theme"\<newline><link rel="stylesheet" href="my.css">\<newline></head>''\<close>
    using m d unfolding l2 by (auto simp: less_Suc_eq dest!: spec [of _ 1])
  from a b show ?thesis by simp
qed

lemmas tweak_eval =
  tweak_html_def tweak_custom_css_def tweak_decorations_def tweak_warmup_def tweak_footer_def
  tweak_header_def tweak_logo_def tweak_background_def insert_after_reveal_def
  decoration_config_def only_cwd_def nothing_exists_def getitem_def find_indexes_def re_search_def atom_of_def linebreak_def
  list_insert_def Path_def splitroot_def str_replace_def str_replace_from.simps

text \<open>
  Claim C5, at an input with two marker lines and a footer. The indexes are those of the
  list before the first insertion, so the second copy of the footer goes in before the
  second marker (after the line \<^verbatim>\<open>A\<close>), not after it.
\<close>

theorem tweak_html_footer_second_marker:
  \<open>tweak_html only_cwd
     ''<div class="reveal">\<newline>A\<newline><div class="reveal">\<newline>B''
     (decoration_config (PStr '''') (PStr ''w.png'') (PStr ''F'') (PStr '''') (PStr ''l.png'') (PStr ''b.png''))
   = Inr ''<div class="reveal">\<newline><div class="footer">F</div>\<newline>A\<newline><div class="footer">F</div>\<newline><div class="reveal">\<newline>B''\<close>
  by (simp add: tweak_eval)





subsection \<open>The debouncing handler\<close>











end
